theory Spec2Isabelle
  imports Complex_Main
begin

section \<open>Data model of \<open>src/app.ts\<close>\<close>

text \<open>
  The program is the class \<open>App\<close> of \<open>src/app.ts\<close>: a Babylon.js scene with one player
  mesh, a follow camera, gravity with a jump, and a field of coin meshes. JavaScript
  numbers are modelled as \<open>real\<close>: the properties below depend on the control flow, on
  comparisons and on sums and products of a few constants, not on rounding.
\<close>

text \<open>Babylon's \<open>Vector3\<close>; the fields are \<open>x\<close>, \<open>y\<close>, \<open>z\<close> in the source.\<close>

record vector3 =
  vx :: real
  vy :: real
  vz :: real

definition Vector3 :: "real \<Rightarrow> real \<Rightarrow> real \<Rightarrow> vector3" where
  "Vector3 a b c = \<lparr>vx = a, vy = b, vz = c\<rparr>"

text \<open>\<open>Vector3.Up()\<close>.\<close>

definition Up :: vector3 where
  "Up = Vector3 0 1 0"

text \<open>\<open>u.add(v)\<close> and \<open>v.scale(k)\<close> (\<open>scaleInPlace\<close> computes the same components).\<close>

definition add :: "vector3 \<Rightarrow> vector3 \<Rightarrow> vector3" where
  "add u v = Vector3 (vx u + vx v) (vy u + vy v) (vz u + vz v)"

definition scale :: "vector3 \<Rightarrow> real \<Rightarrow> vector3" where
  "scale v k = Vector3 (vx v * k) (vy v * k) (vz v * k)"

text \<open>
  The engine is not part of the repository. What the program calls on a \<open>Mesh\<close> is
  taken as a parameter: the type \<open>'m\<close> of meshes and the five operations used in
  \<open>app.ts\<close>. \<open>rotate_mesh\<close> is \<open>mesh.rotate(axis, amount)\<close>, \<open>moveWithCollisions\<close> returns
  the mesh after the collision-resolved move, and \<open>intersectsMesh E c p\<close> is
  \<open>c.intersectsMesh(p, false)\<close>.
\<close>

record 'm babylon =
  position :: "'m \<Rightarrow> vector3"
  forward :: "'m \<Rightarrow> vector3"
  rotate_mesh :: "'m \<Rightarrow> vector3 \<Rightarrow> real \<Rightarrow> 'm"
  moveWithCollisions :: "'m \<Rightarrow> vector3 \<Rightarrow> 'm"
  intersectsMesh :: "'m \<Rightarrow> 'm \<Rightarrow> bool"

text \<open>
  The \<open>FreeCamera\<close>: its position, and the last point given to \<open>setTarget\<close>
  (none before the first call; the constructor only sets a rotation).
\<close>

record freeCamera =
  cam_position :: vector3
  cam_target :: "vector3 option"

text \<open>The object \<open>keyStatus\<close> of \<open>loadModel\<close>: keys \<open>w s a d b Shift ' '\<close>.\<close>

record keyStatus =
  key_w :: bool
  key_s :: bool
  key_a :: bool
  key_d :: bool
  key_b :: bool
  key_Shift :: bool
  key_space :: bool

text \<open>The four animation groups fetched by name in \<open>loadModel\<close>.\<close>

datatype animationGroup = Walking | WalkingBack | Idle | Samba

text \<open>
  Calls that leave the program: \<open>anim.start(true, ratio, from, to, false)\<close>,
  \<open>anim.stop()\<close>, the assignment \<open>anim.speedRatio = r\<close>, \<open>console.log\<close> and
  \<open>sphere.dispose()\<close>. Every operation returns the calls it made, in order.
\<close>

datatype 'm effect =
    AnimStart animationGroup real
  | AnimStop animationGroup
  | AnimSpeedRatio animationGroup real
  | ConsoleLog string
  | Dispose 'm

text \<open>
  The fields of \<open>App\<close> (lines 20-27), and the two variables \<open>speed\<close> and \<open>animSpeed\<close>
  that \<open>loadModel\<close> declares outside the per-frame callback (lines 121-122): they keep
  their value from one frame to the next and are \<open>undefined\<close> (\<open>None\<close>) at first.
\<close>

record 'm app =
  player :: "'m option"
  camera :: freeCamera
  gravity :: vector3
  jumpForce :: real
  isGrounded :: bool
  velocity :: vector3
  spheres :: "'m list"
  speed :: "real option"
  animSpeed :: "real option"

text \<open>The state the constructor leaves, before the model is loaded.\<close>

definition App :: "'m app" where
  "App = \<lparr>player = None,
          camera = \<lparr>cam_position = Vector3 0 5 (-10), cam_target = None\<rparr>,
          gravity = Vector3 0 (-9.81) 0,
          jumpForce = 4,
          isGrounded = True,
          velocity = Vector3 0 0 0,
          spheres = [],
          speed = None,
          animSpeed = None\<rparr>"

text \<open>The constants of \<open>loadModel\<close> (lines 114-119).\<close>

definition playerWalkSpeed :: real where "playerWalkSpeed = 0.03"
definition playerRunSpeed :: real where "playerRunSpeed = 0.1"
definition playerSpeedBackwards :: real where "playerSpeedBackwards = 0.01"
definition playerRotationSpeed :: real where "playerRotationSpeed = 0.06"
definition runAnimSpeed :: real where "runAnimSpeed = 3"
definition walkBackSpeed :: real where "walkBackSpeed = 1"


section \<open>The per-frame callback of \<open>loadModel\<close> (lines 163-217)\<close>

text \<open>Lines 176-181: the two rotations, left first, both when both keys are down.\<close>

definition rotationLogic :: "'m babylon \<Rightarrow> keyStatus \<Rightarrow> 'm \<Rightarrow> 'm" where
  "rotationLogic E ks p =
     (let p1 = (if key_a ks then rotate_mesh E p Up (- playerRotationSpeed) else p)
      in if key_d ks then rotate_mesh E p1 Up playerRotationSpeed else p1)"

text \<open>
  Lines 187-201, run when \<open>w\<close> or \<open>s\<close> is down: the assignment of \<open>speed\<close> and
  \<open>animSpeed\<close> and the animation that is started. The last branch is the missing
  \<open>else\<close> of the source, where both variables keep their value.
\<close>

definition selectSpeed ::
  "keyStatus \<Rightarrow> real option \<Rightarrow> real option \<Rightarrow> 'm effect list \<times> real option \<times> real option" where
  "selectSpeed ks sp asp =
     (if key_s ks \<and> \<not> key_w ks then
        ([AnimStart WalkingBack 1], Some (- playerSpeedBackwards), asp)
      else if key_w ks then
        (let sp' = (if key_Shift ks then playerRunSpeed else playerWalkSpeed);
             asp' = (if key_Shift ks then runAnimSpeed else walkBackSpeed)
         in ([AnimSpeedRatio Walking asp', AnimStart Walking asp'], Some sp', Some asp'))
      else ([], sp, asp))"

text \<open>
  Lines 184-204. The result is the calls made, the mesh, \<open>speed\<close>, \<open>animSpeed\<close> and
  \<open>isMoving\<close>. Line 203 scales \<open>player.forward\<close> by \<open>speed\<close>; with \<open>speed\<close> still
  \<open>undefined\<close> the source would scale by \<open>undefined\<close>, which cannot happen here
  (\<open>selectSpeed_assigns\<close> below), and the model leaves the mesh where it is.
\<close>

definition movementLogic ::
  "'m babylon \<Rightarrow> keyStatus \<Rightarrow> 'm \<Rightarrow> real option \<Rightarrow> real option
     \<Rightarrow> 'm effect list \<times> 'm \<times> real option \<times> real option \<times> bool" where
  "movementLogic E ks p sp asp =
     (if key_w ks \<or> key_s ks then
        (case selectSpeed ks sp asp of (fx, sp', asp') \<Rightarrow>
           (fx,
            (case sp' of
               Some v \<Rightarrow> moveWithCollisions E p (scale (forward E p) v)
             | None \<Rightarrow> p),
            sp', asp', True))
      else ([], p, sp, asp, False))"

text \<open>Lines 206-210.\<close>

definition idleLogic :: "bool \<Rightarrow> 'm effect list" where
  "idleLogic isMoving =
     (if \<not> isMoving then [AnimStart Idle 1, AnimStop Walking, AnimStop WalkingBack] else [])"

text \<open>Lines 212-216: the jump check.\<close>

definition jumpCheck :: "keyStatus \<Rightarrow> 'm app \<Rightarrow> 'm effect list \<times> 'm app" where
  "jumpCheck ks st =
     (if key_space ks \<and> isGrounded st then
        ([ConsoleLog ''Jumping''],
         st\<lparr>velocity := (velocity st)\<lparr>vy := jumpForce st\<rparr>, isGrounded := False\<rparr>)
      else ([], st))"

text \<open>
  The callback, for the mesh \<open>p\<close> that \<open>loadModel\<close> holds in its constant \<open>player\<close>
  (the same object as \<open>this.player\<close>). Lines 167-173 come first: with \<open>b\<close> down the
  callback returns after the four animation calls.
\<close>

definition onBeforeRender ::
  "'m babylon \<Rightarrow> keyStatus \<Rightarrow> 'm \<Rightarrow> 'm app \<Rightarrow> 'm effect list \<times> 'm app" where
  "onBeforeRender E ks p st =
     (if key_b ks then
        ([AnimStop Walking, AnimStop WalkingBack, AnimStop Idle, AnimStart Samba 1], st)
      else
        (case movementLogic E ks (rotationLogic E ks p) (speed st) (animSpeed st) of
           (fx, p', sp', asp', isMoving) \<Rightarrow>
             (case jumpCheck ks (st\<lparr>player := Some p', speed := sp', animSpeed := asp'\<rparr>) of
                (fxj, st') \<Rightarrow> (fx @ idleLogic isMoving @ fxj, st'))))"

text \<open>
  \<open>this.scene.render()\<close> (line 88), as far as the program's state goes: it notifies
  \<open>onBeforeRenderObservable\<close>. \<open>loadModel\<close> adds the callback in the same turn in which
  it sets \<open>this.player\<close>, so the callback runs exactly when a player is there.
\<close>

definition render :: "'m babylon \<Rightarrow> keyStatus \<Rightarrow> 'm app \<Rightarrow> 'm effect list \<times> 'm app" where
  "render E ks st =
     (case player st of
        None \<Rightarrow> ([], st)
      | Some p \<Rightarrow> onBeforeRender E ks p st)"


section \<open>The methods of \<open>App\<close> called by the render loop\<close>

text \<open>
  \<open>applyGravityAndJump\<close> (lines 220-237). \<open>ms\<close> is what \<open>getDeltaTime()\<close> returns,
  in milliseconds. \<open>applyGravity\<close> is the velocity after lines 224-226.
\<close>

definition applyGravity :: "'m app \<Rightarrow> real \<Rightarrow> vector3" where
  "applyGravity st deltaTime =
     (if \<not> isGrounded st then add (velocity st) (scale (gravity st) deltaTime)
      else velocity st)"

definition applyGravityAndJump :: "'m babylon \<Rightarrow> real \<Rightarrow> 'm app \<Rightarrow> 'm app" where
  "applyGravityAndJump E ms st =
     (case player st of
        None \<Rightarrow> st
      | Some p \<Rightarrow>
          (let deltaTime = ms / 1000;
               v = applyGravity st deltaTime;
               p' = moveWithCollisions E p (scale v deltaTime)
           in if vy (position E p') \<le> 0.1 then
                st\<lparr>player := Some p', velocity := v\<lparr>vy := 0\<rparr>, isGrounded := True\<rparr>
              else st\<lparr>player := Some p', velocity := v\<rparr>))"

text \<open>\<open>updateCamera\<close> (lines 240-257).\<close>

definition followDistance :: real where "followDistance = 10"
definition cameraHeight :: real where "cameraHeight = 5"

definition updateCamera :: "'m babylon \<Rightarrow> 'm app \<Rightarrow> 'm app" where
  "updateCamera E st =
     (case player st of
        None \<Rightarrow> st
      | Some p \<Rightarrow>
          (let backward = scale (forward E p) (- followDistance);
               cameraPosition = add (position E p) backward
           in st\<lparr>camera :=
                   \<lparr>cam_position = Vector3 (vx cameraPosition) cameraHeight (vz cameraPosition),
                    cam_target = Some (position E p)\<rparr>\<rparr>))"

text \<open>
  \<open>Array.prototype.filter\<close> with the callback of lines 288-294: it visits the elements
  of the array in order, disposes of a sphere that intersects the player and drops it,
  and collects the others in a new array.
\<close>

fun sweep :: "'m babylon \<Rightarrow> 'm \<Rightarrow> 'm list \<Rightarrow> 'm effect list \<times> 'm list" where
  "sweep E p [] = ([], [])"
| "sweep E p (sphere # rest) =
     (case sweep E p rest of (fx, kept) \<Rightarrow>
        if intersectsMesh E sphere p then (Dispose sphere # fx, kept)
        else (fx, sphere # kept))"

text \<open>\<open>updateGame\<close> (lines 285-295).\<close>

definition updateGame :: "'m babylon \<Rightarrow> 'm app \<Rightarrow> 'm effect list \<times> 'm app" where
  "updateGame E st =
     (case player st of
        None \<Rightarrow> ([], st)
      | Some p \<Rightarrow>
          (case sweep E p (spheres st) of (fx, kept) \<Rightarrow> (fx, st\<lparr>spheres := kept\<rparr>)))"

text \<open>
  One turn of the render loop (lines 87-92): \<open>scene.render()\<close>, then \<open>updateCamera\<close>,
  then \<open>applyGravityAndJump\<close>, then \<open>updateGame\<close>. \<open>ks\<close> is \<open>keyStatus\<close> as the key handlers
  left it before the frame, \<open>ms\<close> the frame's delta time.
\<close>

definition runRenderLoop ::
  "'m babylon \<Rightarrow> keyStatus \<Rightarrow> real \<Rightarrow> 'm app \<Rightarrow> 'm effect list \<times> 'm app" where
  "runRenderLoop E ks ms st =
     (case render E ks st of (fx1, st1) \<Rightarrow>
        (case updateGame E (applyGravityAndJump E ms (updateCamera E st1)) of
           (fx2, st2) \<Rightarrow> (fx1 @ fx2, st2)))"

text \<open>Several frames in a row, one pair of key state and delta time per frame.\<close>

fun frames :: "'m babylon \<Rightarrow> (keyStatus \<times> real) list \<Rightarrow> 'm app \<Rightarrow> 'm app" where
  "frames E [] st = st"
| "frames E ((ks, ms) # rest) st = frames E rest (snd (runRenderLoop E ks ms st))"

section \<open>The frame order of the specification\<close>

text \<open>
  The order in which the specification lists the components of a frame: the callback,
  then the vertical integrator, then the camera, then the pickup sweep. It is compared
  with \<open>runRenderLoop\<close> below.
\<close>

definition specFrameOrder ::
  "'m babylon \<Rightarrow> keyStatus \<Rightarrow> real \<Rightarrow> 'm app \<Rightarrow> 'm effect list \<times> 'm app" where
  "specFrameOrder E ks ms st =
     (case render E ks st of (fx1, st1) \<Rightarrow>
        (case updateGame E (updateCamera E (applyGravityAndJump E ms st1)) of
           (fx2, st2) \<Rightarrow> (fx1 @ fx2, st2)))"


section \<open>A small engine to run the program on\<close>

text \<open>
  A stand-in for the engine, used to evaluate the program on concrete inputs: a mesh is
  an axis-aligned box with a heading, the ground is the plane \<open>y = 0\<close>, a move adds
  the displacement and stops at the ground, a rotation about \<open>Up\<close> turns the heading
  (to first order in the angle, which keeps the stand-in computable), and two meshes
  intersect when their boxes overlap.
\<close>

record box =
  centre :: vector3
  heading :: vector3
  halfExtent :: real

definition overlaps :: "box \<Rightarrow> box \<Rightarrow> bool" where
  "overlaps c p =
     (\<bar>vx (centre c) - vx (centre p)\<bar> \<le> halfExtent c + halfExtent p \<and>
      \<bar>vy (centre c) - vy (centre p)\<bar> \<le> halfExtent c + halfExtent p \<and>
      \<bar>vz (centre c) - vz (centre p)\<bar> \<le> halfExtent c + halfExtent p)"

definition moveOnGround :: "box \<Rightarrow> vector3 \<Rightarrow> box" where
  "moveOnGround m d =
     (let q = add (centre m) d in m\<lparr>centre := q\<lparr>vy := max 0 (vy q)\<rparr>\<rparr>)"

definition turn :: "box \<Rightarrow> vector3 \<Rightarrow> real \<Rightarrow> box" where
  "turn m axis amount =
     (let h = heading m; t = vy axis * amount
      in m\<lparr>heading := Vector3 (vx h + vz h * t) (vy h) (vz h - vx h * t)\<rparr>)"

definition flatWorld :: "box babylon" where
  "flatWorld =
     \<lparr>position = centre,
      forward = heading,
      rotate_mesh = turn,
      moveWithCollisions = moveOnGround,
      intersectsMesh = overlaps\<rparr>"

text \<open>A box of half extent \<open>1/2\<close> at a given place, facing \<open>+Z\<close>.\<close>

definition boxAt :: "real \<Rightarrow> real \<Rightarrow> real \<Rightarrow> box" where
  "boxAt a b c = \<lparr>centre = Vector3 a b c, heading = Vector3 0 0 1, halfExtent = 1/2\<rparr>"

text \<open>The state after loading: the player \<open>p\<close> and the coins \<open>cs\<close>.\<close>

definition loaded :: "'m \<Rightarrow> 'm list \<Rightarrow> 'm app" where
  "loaded p cs = App\<lparr>player := Some p, spheres := cs\<rparr>"

text \<open>A key state with no key down.\<close>

definition noKeys :: keyStatus where
  "noKeys = \<lparr>key_w = False, key_s = False, key_a = False, key_d = False,
             key_b = False, key_Shift = False, key_space = False\<rparr>"


section \<open>Auxiliary facts\<close>

text \<open>The definitions that evaluate the program on a concrete input.\<close>

lemmas vector_defs = Vector3_def Up_def add_def scale_def
lemmas world_defs = flatWorld_def moveOnGround_def turn_def overlaps_def boxAt_def
  loaded_def App_def noKeys_def
lemmas callback_defs = render_def onBeforeRender_def movementLogic_def selectSpeed_def
  rotationLogic_def idleLogic_def jumpCheck_def playerWalkSpeed_def playerRunSpeed_def
  playerSpeedBackwards_def playerRotationSpeed_def runAnimSpeed_def walkBackSpeed_def
lemmas loop_defs = runRenderLoop_def updateGame_def updateCamera_def applyGravityAndJump_def
  applyGravity_def followDistance_def cameraHeight_def

lemma sweep_filter:
  "sweep E p xs =
     (map Dispose (filter (\<lambda>c. intersectsMesh E c p) xs),
      filter (\<lambda>c. \<not> intersectsMesh E c p) xs)"
  by (induction xs) (auto split: prod.splits)

lemma selectSpeed_assigns:
  "key_w ks \<or> key_s ks \<Longrightarrow> fst (snd (selectSpeed ks sp asp)) \<noteq> None"
  by (auto simp: selectSpeed_def Let_def)

lemma jumpCheck_fields:
  "player (snd (jumpCheck ks st)) = player st"
  "camera (snd (jumpCheck ks st)) = camera st"
  "spheres (snd (jumpCheck ks st)) = spheres st"
  "jumpForce (snd (jumpCheck ks st)) = jumpForce st"
  "gravity (snd (jumpCheck ks st)) = gravity st"
  by (simp_all add: jumpCheck_def)

lemma onBeforeRender_fields:
  "camera (snd (onBeforeRender E ks p st)) = camera st"
  "spheres (snd (onBeforeRender E ks p st)) = spheres st"
  "jumpForce (snd (onBeforeRender E ks p st)) = jumpForce st"
  "gravity (snd (onBeforeRender E ks p st)) = gravity st"
  by (simp_all add: onBeforeRender_def jumpCheck_def split: prod.splits)

lemma render_fields:
  "camera (snd (render E ks st)) = camera st"
  "spheres (snd (render E ks st)) = spheres st"
  "jumpForce (snd (render E ks st)) = jumpForce st"
  "gravity (snd (render E ks st)) = gravity st"
  by (simp_all add: render_def onBeforeRender_fields split: option.splits)

lemma render_player_present:
  "(player (snd (render E ks st)) = None) = (player st = None)"
  by (simp add: render_def onBeforeRender_def jumpCheck_def split: option.splits prod.splits)

lemma updateCamera_fields:
  "player (updateCamera E st) = player st"
  "spheres (updateCamera E st) = spheres st"
  "velocity (updateCamera E st) = velocity st"
  "isGrounded (updateCamera E st) = isGrounded st"
  "gravity (updateCamera E st) = gravity st"
  "jumpForce (updateCamera E st) = jumpForce st"
  by (simp_all add: updateCamera_def Let_def split: option.splits)

lemma applyGravityAndJump_camera:
  "applyGravityAndJump E ms (st\<lparr>camera := c\<rparr>) = (applyGravityAndJump E ms st)\<lparr>camera := c\<rparr>"
  by (simp add: applyGravityAndJump_def applyGravity_def Let_def split: option.splits)

lemma updateCamera_as_update:
  "updateCamera E st = st\<lparr>camera := camera (updateCamera E st)\<rparr>"
  by (simp add: updateCamera_def Let_def split: option.splits)

lemma integrator_after_camera:
  "applyGravityAndJump E ms (updateCamera E st) =
     (applyGravityAndJump E ms st)\<lparr>camera := camera (updateCamera E st)\<rparr>"
  using applyGravityAndJump_camera [where E = E and ms = ms and st = st
      and c = "camera (updateCamera E st)"]
    updateCamera_as_update [where E = E and st = st] by simp

lemma applyGravityAndJump_fields:
  "spheres (applyGravityAndJump E ms st) = spheres st"
  "camera (applyGravityAndJump E ms st) = camera st"
  "gravity (applyGravityAndJump E ms st) = gravity st"
  "jumpForce (applyGravityAndJump E ms st) = jumpForce st"
  by (simp_all add: applyGravityAndJump_def Let_def split: option.splits)

lemma updateGame_fields:
  "player (snd (updateGame E st)) = player st"
  "camera (snd (updateGame E st)) = camera st"
  "velocity (snd (updateGame E st)) = velocity st"
  "isGrounded (snd (updateGame E st)) = isGrounded st"
  "gravity (snd (updateGame E st)) = gravity st"
  "jumpForce (snd (updateGame E st)) = jumpForce st"
  by (simp_all add: updateGame_def split: option.splits prod.splits)

lemma updateGame_spheres:
  "spheres (snd (updateGame E st)) =
     (case player st of None \<Rightarrow> spheres st
      | Some p \<Rightarrow> filter (\<lambda>c. \<not> intersectsMesh E c p) (spheres st))"
  by (simp add: updateGame_def sweep_filter split: option.splits)

lemma runRenderLoop_state:
  "snd (runRenderLoop E ks ms st) =
     snd (updateGame E (applyGravityAndJump E ms (updateCamera E (snd (render E ks st)))))"
  by (simp add: runRenderLoop_def split: prod.splits)

lemma runRenderLoop_spheres:
  "spheres (snd (runRenderLoop E ks ms st)) =
     (case player (snd (runRenderLoop E ks ms st)) of
        None \<Rightarrow> spheres st
      | Some p \<Rightarrow> filter (\<lambda>c. \<not> intersectsMesh E c p) (spheres st))"
  by (simp add: runRenderLoop_state updateGame_spheres updateGame_fields
      applyGravityAndJump_fields updateCamera_fields render_fields split: option.splits)

lemma runRenderLoop_spheres_subset:
  "set (spheres (snd (runRenderLoop E ks ms st))) \<subseteq> set (spheres st)"
  by (auto simp: runRenderLoop_spheres split: option.splits)

lemma runRenderLoop_spheres_length:
  "length (spheres (snd (runRenderLoop E ks ms st))) \<le> length (spheres st)"
  by (simp add: runRenderLoop_spheres split: option.splits)

lemma frames_spheres_subset:
  "set (spheres (frames E ins st)) \<subseteq> set (spheres st)"
proof (induction ins arbitrary: st)
  case Nil
  show ?case by simp
next
  case (Cons i ins)
  obtain ks ms where i: "i = (ks, ms)" by (cases i)
  have "set (spheres (frames E ins (snd (runRenderLoop E ks ms st))))
          \<subseteq> set (spheres (snd (runRenderLoop E ks ms st)))"
    by (rule Cons.IH)
  with runRenderLoop_spheres_subset [of E ks ms st] show ?case
    unfolding i by auto
qed

lemma frames_spheres_length:
  "length (spheres (frames E ins st)) \<le> length (spheres st)"
proof (induction ins arbitrary: st)
  case Nil
  show ?case by simp
next
  case (Cons i ins)
  obtain ks ms where i: "i = (ks, ms)" by (cases i)
  have "length (spheres (frames E ins (snd (runRenderLoop E ks ms st))))
          \<le> length (spheres (snd (runRenderLoop E ks ms st)))"
    by (rule Cons.IH)
  with runRenderLoop_spheres_length [of E ks ms st] show ?case
    unfolding i by simp
qed

lemma render_no_jump:
  "\<not> (key_space ks \<and> isGrounded st) \<Longrightarrow>
     velocity (snd (render E ks st)) = velocity st \<and>
     isGrounded (snd (render E ks st)) = isGrounded st \<and>
     ConsoleLog ''Jumping'' \<notin> set (fst (render E ks st))"
  by (auto simp: render_def onBeforeRender_def jumpCheck_def movementLogic_def
      selectSpeed_def idleLogic_def Let_def split: option.splits prod.splits if_splits)

lemma render_jump:
  "player st = Some p \<Longrightarrow> \<not> key_b ks \<Longrightarrow> key_space ks \<Longrightarrow> isGrounded st \<Longrightarrow>
     velocity (snd (render E ks st)) = (velocity st)\<lparr>vy := jumpForce st\<rparr> \<and>
     \<not> isGrounded (snd (render E ks st)) \<and>
     ConsoleLog ''Jumping'' \<in> set (fst (render E ks st))"
  by (simp add: render_def onBeforeRender_def jumpCheck_def split: prod.splits)

lemma updateGame_no_log:
  "ConsoleLog s \<notin> set (fst (updateGame E st))"
  by (auto simp: updateGame_def sweep_filter split: option.splits)

lemma runRenderLoop_effects:
  "fst (runRenderLoop E ks ms st) =
     fst (render E ks st) @
     fst (updateGame E (applyGravityAndJump E ms (updateCamera E (snd (render E ks st)))))"
  by (simp add: runRenderLoop_def split: prod.splits)

lemma runRenderLoop_motion:
  "player (snd (runRenderLoop E ks ms st)) =
     player (applyGravityAndJump E ms (snd (render E ks st)))"
  "velocity (snd (runRenderLoop E ks ms st)) =
     velocity (applyGravityAndJump E ms (snd (render E ks st)))"
  "isGrounded (snd (runRenderLoop E ks ms st)) =
     isGrounded (applyGravityAndJump E ms (snd (render E ks st)))"
  by (simp_all add: runRenderLoop_state updateGame_fields integrator_after_camera)

lemma applyGravityAndJump_velocity:
  "player st = Some p \<Longrightarrow>
     velocity (applyGravityAndJump E ms st) = applyGravity st (ms / 1000) \<or>
     velocity (applyGravityAndJump E ms st) = (applyGravity st (ms / 1000))\<lparr>vy := 0\<rparr>"
  by (simp add: applyGravityAndJump_def Let_def)

lemma applyGravityAndJump_landed:
  "player (applyGravityAndJump E ms st) = Some q \<Longrightarrow> vy (position E q) \<le> 0.1 \<Longrightarrow>
     isGrounded (applyGravityAndJump E ms st) \<and>
     vy (velocity (applyGravityAndJump E ms st)) = 0"
  by (auto simp: applyGravityAndJump_def Let_def split: option.splits if_splits)


section \<open>The claims\<close>

subsection \<open>The jump check and the dance key\<close>

text \<open>
  Claim C1 says that the jump impulse is applied in every frame with the jump key down
  and the player grounded, also when the dance key is down. The callback returns at
  line 172 when \<open>b\<close> is down, before the jump check of line 212. Evaluated on a
  grounded player at the origin with \<open>b\<close> and the space key down: the player stays
  grounded and the vertical velocity stays \<open>0\<close>, where the jump force is \<open>4\<close>; with
  the space key alone the same state jumps.
\<close>

theorem dance_return_skips_jump:
  "key_space (noKeys\<lparr>key_b := True, key_space := True\<rparr>) \<and>
   isGrounded (loaded (boxAt 0 0 0) []) \<and>
   jumpForce (loaded (boxAt 0 0 0) []) = 4 \<and>
   isGrounded (snd (render flatWorld (noKeys\<lparr>key_b := True, key_space := True\<rparr>)
                      (loaded (boxAt 0 0 0) []))) \<and>
   vy (velocity (snd (render flatWorld (noKeys\<lparr>key_b := True, key_space := True\<rparr>)
                      (loaded (boxAt 0 0 0) [])))) = 0 \<and>
   \<not> isGrounded (snd (render flatWorld (noKeys\<lparr>key_space := True\<rparr>)
                      (loaded (boxAt 0 0 0) []))) \<and>
   vy (velocity (snd (render flatWorld (noKeys\<lparr>key_space := True\<rparr>)
                      (loaded (boxAt 0 0 0) [])))) = 4"
  by (simp add: callback_defs world_defs vector_defs)

subsection \<open>The order of a frame\<close>

text \<open>
  Claim C2 gives the order of a frame as callback, integrator, camera, sweep
  (\<open>specFrameOrder\<close>). That is not the order of the render loop: a player falling
  from height \<open>2\<close> for a frame of 100 ms ends the frame at height \<open>1.9019\<close>, and
  the camera of \<open>runRenderLoop\<close> looks at height \<open>2\<close>, where the order of the
  specification would make it look at \<open>1.9019\<close>.
\<close>

theorem spec_frame_order_counterexample:
  "runRenderLoop flatWorld noKeys 100 ((loaded (boxAt 0 2 0) [])\<lparr>isGrounded := False\<rparr>)
     \<noteq> specFrameOrder flatWorld noKeys 100 ((loaded (boxAt 0 2 0) [])\<lparr>isGrounded := False\<rparr>)"
  by (simp add: specFrameOrder_def loop_defs callback_defs world_defs vector_defs)

text \<open>
  Claim C2, amended: within every frame the components run in the order callback
  (inside \<open>scene.render()\<close>), camera follow rule, vertical integrator, pickup sweep. So
  the camera of the frame is computed from the player as the callback left it, before
  the integrator moves it; the integrator moves the player the callback left; and the
  sweep tests the coins against the player the integrator left.
\<close>

theorem render_loop_order:
  "snd (runRenderLoop E ks ms st) =
     snd (updateGame E (applyGravityAndJump E ms (updateCamera E (snd (render E ks st))))) \<and>
   camera (snd (runRenderLoop E ks ms st)) = camera (updateCamera E (snd (render E ks st))) \<and>
   player (snd (runRenderLoop E ks ms st)) =
     player (applyGravityAndJump E ms (snd (render E ks st))) \<and>
   spheres (snd (runRenderLoop E ks ms st)) =
     spheres (snd (updateGame E (applyGravityAndJump E ms (snd (render E ks st)))))"
  by (simp add: runRenderLoop_state updateGame_fields integrator_after_camera
      updateGame_spheres applyGravityAndJump_fields updateCamera_fields
      split: option.splits)

theorem render_loop_order_witness:
  "camera (snd (runRenderLoop flatWorld noKeys 100
       ((loaded (boxAt 0 2 0) [])\<lparr>isGrounded := False\<rparr>))) =
     \<lparr>cam_position = Vector3 0 5 (-10), cam_target = Some (Vector3 0 2 0)\<rparr> \<and>
   player (snd (runRenderLoop flatWorld noKeys 100
       ((loaded (boxAt 0 2 0) [])\<lparr>isGrounded := False\<rparr>))) =
     Some (boxAt 0 (2 - 9.81 * 0.1 * 0.1) 0)"
  using render_loop_order [where E = flatWorld and ks = noKeys and ms = 100
      and st = "(loaded (boxAt 0 2 0) [])\<lparr>isGrounded := False\<rparr>"]
  by (simp add: loop_defs callback_defs world_defs vector_defs)

subsection \<open>No player\<close>

text \<open>
  Claim C3: with no player mesh, \<open>applyGravityAndJump\<close>, \<open>updateCamera\<close> and
  \<open>updateGame\<close> return the state they were given (velocity, grounded flag, camera and
  coins included) and make no call on the engine. Each of them reads the player only
  under its presence guard, so there is no branch in which it could fault.
\<close>

theorem no_player_no_op:
  "player st = None \<Longrightarrow>
     applyGravityAndJump E ms st = st \<and> updateCamera E st = st \<and>
     updateGame E st = ([], st)"
  by (simp add: applyGravityAndJump_def updateCamera_def updateGame_def)

theorem no_player_no_op_witness:
  "player (App :: box app) = None \<and>
   applyGravityAndJump flatWorld 16 (App :: box app) = App \<and>
   updateCamera flatWorld (App :: box app) = App \<and>
   updateGame flatWorld (App :: box app) = ([], App)"
  using no_player_no_op [where st = "App :: box app" and E = flatWorld and ms = 16]
  by (simp add: App_def)

subsection \<open>Landing\<close>

text \<open>
  Claim C4: in an integrator frame in which the player is falling (the vertical velocity
  used for the move is negative) and the height after the collision-aware move is at
  most \<open>0.1\<close>, the same call sets the grounded flag and sets the vertical velocity to
  exactly \<open>0\<close>.
\<close>

theorem falling_below_threshold_lands:
  assumes "player st = Some p"
    and "vy (applyGravity st (ms / 1000)) < 0"
    and "vy (position E (moveWithCollisions E p
            (scale (applyGravity st (ms / 1000)) (ms / 1000)))) \<le> 0.1"
  shows "isGrounded (applyGravityAndJump E ms st) \<and>
         vy (velocity (applyGravityAndJump E ms st)) = 0"
  using assms by (simp add: applyGravityAndJump_def Let_def)

theorem falling_below_threshold_lands_witness:
  "player ((loaded (boxAt 0 0.2 0) [])\<lparr>isGrounded := False, velocity := Vector3 0 (-3) 0\<rparr>)
     = Some (boxAt 0 0.2 0) \<and>
   vy (applyGravity
         ((loaded (boxAt 0 0.2 0) [])\<lparr>isGrounded := False, velocity := Vector3 0 (-3) 0\<rparr>)
         (100 / 1000)) < 0 \<and>
   vy (position flatWorld (moveWithCollisions flatWorld (boxAt 0 0.2 0)
         (scale (applyGravity
            ((loaded (boxAt 0 0.2 0) [])\<lparr>isGrounded := False, velocity := Vector3 0 (-3) 0\<rparr>)
            (100 / 1000)) (100 / 1000)))) \<le> 0.1 \<and>
   isGrounded (applyGravityAndJump flatWorld 100
      ((loaded (boxAt 0 0.2 0) [])\<lparr>isGrounded := False, velocity := Vector3 0 (-3) 0\<rparr>)) \<and>
   vy (velocity (applyGravityAndJump flatWorld 100
      ((loaded (boxAt 0 0.2 0) [])\<lparr>isGrounded := False, velocity := Vector3 0 (-3) 0\<rparr>))) = 0"
  using falling_below_threshold_lands [where E = flatWorld and ms = 100 and p = "boxAt 0 0.2 0"
      and st = "(loaded (boxAt 0 0.2 0) [])\<lparr>isGrounded := False, velocity := Vector3 0 (-3) 0\<rparr>"]
  by (simp add: applyGravity_def world_defs vector_defs)

subsection \<open>Jumping\<close>

text \<open>
  Claim C5: the callback applies the jump impulse (logs the jump, changes the velocity
  or the grounded flag) only if the space key is down and the player is grounded when
  the callback runs; when it does, the grounded flag is cleared and the vertical
  velocity is the jump force, which stays what it was; and in a frame that starts with
  the player airborne the callback leaves velocity and flag alone whatever the keys,
  no jump is logged in the whole frame, and the frame's velocity is the old one plus
  gravity, with the vertical part zeroed on landing.
\<close>

theorem jump_needs_ground:
  "(ConsoleLog ''Jumping'' \<in> set (fst (render E ks st)) \<or>
      velocity (snd (render E ks st)) \<noteq> velocity st \<or>
      isGrounded (snd (render E ks st)) \<noteq> isGrounded st \<longrightarrow>
        key_space ks \<and> isGrounded st) \<and>
   (player st = Some p \<and> \<not> key_b ks \<and> key_space ks \<and> isGrounded st \<longrightarrow>
      \<not> isGrounded (snd (render E ks st)) \<and>
      velocity (snd (render E ks st)) = (velocity st)\<lparr>vy := jumpForce st\<rparr> \<and>
      jumpForce (snd (render E ks st)) = jumpForce st) \<and>
   (player st' = Some p' \<and> \<not> isGrounded st' \<longrightarrow>
      \<not> isGrounded (snd (render E ks' st')) \<and>
      velocity (snd (render E ks' st')) = velocity st' \<and>
      ConsoleLog ''Jumping'' \<notin> set (fst (runRenderLoop E ks' ms st')) \<and>
      (velocity (snd (runRenderLoop E ks' ms st')) =
         add (velocity st') (scale (gravity st') (ms / 1000)) \<or>
       velocity (snd (runRenderLoop E ks' ms st')) =
         (add (velocity st') (scale (gravity st') (ms / 1000)))\<lparr>vy := 0\<rparr>))"
proof -
  have a: "key_space ks \<and> isGrounded st"
    if "ConsoleLog ''Jumping'' \<in> set (fst (render E ks st)) \<or>
        velocity (snd (render E ks st)) \<noteq> velocity st \<or>
        isGrounded (snd (render E ks st)) \<noteq> isGrounded st"
    using that render_no_jump [of ks st E] by blast
  have b: "\<not> isGrounded (snd (render E ks st)) \<and>
      velocity (snd (render E ks st)) = (velocity st)\<lparr>vy := jumpForce st\<rparr> \<and>
      jumpForce (snd (render E ks st)) = jumpForce st"
    if "player st = Some p" "\<not> key_b ks" "key_space ks" "isGrounded st"
    using render_jump [OF that, of E] by (simp add: render_fields)
  have c: "\<not> isGrounded (snd (render E ks' st')) \<and>
      velocity (snd (render E ks' st')) = velocity st' \<and>
      ConsoleLog ''Jumping'' \<notin> set (fst (runRenderLoop E ks' ms st')) \<and>
      (velocity (snd (runRenderLoop E ks' ms st')) =
         add (velocity st') (scale (gravity st') (ms / 1000)) \<or>
       velocity (snd (runRenderLoop E ks' ms st')) =
         (add (velocity st') (scale (gravity st') (ms / 1000)))\<lparr>vy := 0\<rparr>)"
    if p: "player st' = Some p'" and g: "\<not> isGrounded st'"
  proof -
    let ?r = "snd (render E ks' st')"
    from g have r: "velocity ?r = velocity st'" "isGrounded ?r = isGrounded st'"
      "ConsoleLog ''Jumping'' \<notin> set (fst (render E ks' st'))"
      using render_no_jump [of ks' st' E] by simp_all
    from p obtain p'' where p'': "player ?r = Some p''"
      using render_player_present [of E ks' st'] by (cases "player ?r") auto
    have v: "applyGravity ?r (ms / 1000) = add (velocity st') (scale (gravity st') (ms / 1000))"
      using r g by (simp add: applyGravity_def render_fields)
    from applyGravityAndJump_velocity [OF p'', of E ms] v r g show ?thesis
      by (simp add: runRenderLoop_motion runRenderLoop_effects updateGame_no_log)
  qed
  from a b c show ?thesis by blast
qed

theorem jump_needs_ground_witness:
  "ConsoleLog ''Jumping'' \<in> set (fst (render flatWorld (noKeys\<lparr>key_space := True\<rparr>)
       (loaded (boxAt 0 0 0) []))) \<and>
   player (loaded (boxAt 0 0 0) []) = Some (boxAt 0 0 0) \<and>
   \<not> key_b (noKeys\<lparr>key_space := True\<rparr>) \<and>
   key_space (noKeys\<lparr>key_space := True\<rparr>) \<and>
   isGrounded (loaded (boxAt 0 0 0) []) \<and>
   \<not> isGrounded (snd (render flatWorld (noKeys\<lparr>key_space := True\<rparr>)
       (loaded (boxAt 0 0 0) []))) \<and>
   velocity (snd (render flatWorld (noKeys\<lparr>key_space := True\<rparr>) (loaded (boxAt 0 0 0) [])))
     = Vector3 0 4 0 \<and>
   player ((loaded (boxAt 0 3 0) [])\<lparr>isGrounded := False, velocity := Vector3 0 2 0\<rparr>)
     = Some (boxAt 0 3 0) \<and>
   \<not> isGrounded ((loaded (boxAt 0 3 0) [])\<lparr>isGrounded := False, velocity := Vector3 0 2 0\<rparr>) \<and>
   velocity (snd (render flatWorld (noKeys\<lparr>key_space := True\<rparr>)
       ((loaded (boxAt 0 3 0) [])\<lparr>isGrounded := False, velocity := Vector3 0 2 0\<rparr>)))
     = Vector3 0 2 0 \<and>
   ConsoleLog ''Jumping'' \<notin> set (fst (runRenderLoop flatWorld (noKeys\<lparr>key_space := True\<rparr>) 16
       ((loaded (boxAt 0 3 0) [])\<lparr>isGrounded := False, velocity := Vector3 0 2 0\<rparr>))) \<and>
   velocity (snd (runRenderLoop flatWorld (noKeys\<lparr>key_space := True\<rparr>) 16
       ((loaded (boxAt 0 3 0) [])\<lparr>isGrounded := False, velocity := Vector3 0 2 0\<rparr>)))
     = Vector3 0 (2 - 9.81 * 0.016) 0"
  using jump_needs_ground [where E = flatWorld and ks = "noKeys\<lparr>key_space := True\<rparr>"
      and st = "loaded (boxAt 0 0 0) []" and p = "boxAt 0 0 0"
      and ks' = "noKeys\<lparr>key_space := True\<rparr>" and ms = 16 and p' = "boxAt 0 3 0"
      and st' = "(loaded (boxAt 0 3 0) [])\<lparr>isGrounded := False, velocity := Vector3 0 2 0\<rparr>"]
  by (simp add: loop_defs callback_defs world_defs vector_defs)

subsection \<open>Dancing\<close>

text \<open>
  Claim C6: with the dance key down the callback returns the state unchanged, whatever
  the other keys: the player mesh is neither rotated nor moved.
\<close>

theorem dance_no_motion:
  "key_b ks \<Longrightarrow>
     snd (onBeforeRender E ks p st) = st \<and> snd (render E ks st) = st \<and>
     player (snd (render E ks st)) = player st"
  by (simp add: render_def onBeforeRender_def split: option.splits)

theorem dance_no_motion_witness:
  "key_b (noKeys\<lparr>key_b := True, key_w := True, key_a := True, key_Shift := True\<rparr>) \<and>
   player (snd (render flatWorld
       (noKeys\<lparr>key_b := True, key_w := True, key_a := True, key_Shift := True\<rparr>)
       (loaded (boxAt 1 0 2) []))) = Some (boxAt 1 0 2)"
  using dance_no_motion [where ks = "noKeys\<lparr>key_b := True, key_w := True, key_a := True, key_Shift := True\<rparr>"
      and E = flatWorld and st = "loaded (boxAt 1 0 2) []" and p = "boxAt 1 0 2"]
  by (simp add: loaded_def noKeys_def)

subsection \<open>Forward and backward together\<close>

text \<open>
  Claim C7: with \<open>w\<close> and \<open>s\<close> both down and \<open>b\<close> up, the backward animation is not
  started, the walking animation is, and the player is moved along its forward
  direction (after the rotations) by the run speed when Shift is down and by the walk
  speed otherwise.
\<close>

theorem forward_beats_backward:
  "key_w ks \<Longrightarrow> key_s ks \<Longrightarrow> \<not> key_b ks \<Longrightarrow>
     AnimStart WalkingBack r \<notin> set (fst (onBeforeRender E ks p st)) \<and>
     AnimStart Walking (if key_Shift ks then runAnimSpeed else walkBackSpeed)
       \<in> set (fst (onBeforeRender E ks p st)) \<and>
     speed (snd (onBeforeRender E ks p st)) =
       Some (if key_Shift ks then playerRunSpeed else playerWalkSpeed) \<and>
     player (snd (onBeforeRender E ks p st)) =
       Some (moveWithCollisions E (rotationLogic E ks p)
               (scale (forward E (rotationLogic E ks p))
                  (if key_Shift ks then playerRunSpeed else playerWalkSpeed)))"
  by (simp add: onBeforeRender_def movementLogic_def selectSpeed_def idleLogic_def
      jumpCheck_def Let_def)

theorem forward_beats_backward_witness:
  "key_w (noKeys\<lparr>key_w := True, key_s := True, key_Shift := True\<rparr>) \<and>
   key_s (noKeys\<lparr>key_w := True, key_s := True, key_Shift := True\<rparr>) \<and>
   \<not> key_b (noKeys\<lparr>key_w := True, key_s := True, key_Shift := True\<rparr>) \<and>
   AnimStart WalkingBack 1 \<notin> set (fst (onBeforeRender flatWorld
       (noKeys\<lparr>key_w := True, key_s := True, key_Shift := True\<rparr>)
       (boxAt 0 0 0) (loaded (boxAt 0 0 0) []))) \<and>
   speed (snd (onBeforeRender flatWorld
       (noKeys\<lparr>key_w := True, key_s := True, key_Shift := True\<rparr>)
       (boxAt 0 0 0) (loaded (boxAt 0 0 0) []))) = Some 0.1 \<and>
   player (snd (onBeforeRender flatWorld
       (noKeys\<lparr>key_w := True, key_s := True, key_Shift := True\<rparr>)
       (boxAt 0 0 0) (loaded (boxAt 0 0 0) []))) = Some (boxAt 0 0 0.1)"
  using forward_beats_backward [where ks = "noKeys\<lparr>key_w := True, key_s := True, key_Shift := True\<rparr>"
      and E = flatWorld and p = "boxAt 0 0 0" and st = "loaded (boxAt 0 0 0) []" and r = 1]
  by (simp add: callback_defs world_defs vector_defs)

subsection \<open>The coins\<close>

text \<open>
  Claim C8: a frame never lengthens the list of live coins, nor does any run of frames;
  a coin that intersects the player at the frame's sweep (the player as the frame
  leaves it) is not in the list after the frame, nor after any later frames; a coin
  that is not in the list is in it after no run of frames; and the sweep is a filter
  into a new list: the survivors are the coins of the old list, in order, that do not
  intersect the player, and exactly the others are disposed of.
\<close>

theorem pickups_only_shrink:
  "length (spheres (snd (runRenderLoop E ks ms st))) \<le> length (spheres st) \<and>
   length (spheres (frames E ins st)) \<le> length (spheres st) \<and>
   (player (snd (runRenderLoop E ks ms st)) = Some p \<and> intersectsMesh E c p \<longrightarrow>
      c \<notin> set (spheres (snd (runRenderLoop E ks ms st))) \<and>
      c \<notin> set (spheres (frames E ins (snd (runRenderLoop E ks ms st))))) \<and>
   (c' \<notin> set (spheres st) \<longrightarrow> c' \<notin> set (spheres (frames E ins st))) \<and>
   (player st = Some q \<longrightarrow>
      updateGame E st =
        (map Dispose (filter (\<lambda>c. intersectsMesh E c q) (spheres st)),
         st\<lparr>spheres := filter (\<lambda>c. \<not> intersectsMesh E c q) (spheres st)\<rparr>))"
proof -
  let ?s = "snd (runRenderLoop E ks ms st)"
  have a: "length (spheres ?s) \<le> length (spheres st)"
    by (rule runRenderLoop_spheres_length)
  have b: "length (spheres (frames E ins st)) \<le> length (spheres st)"
    by (rule frames_spheres_length)
  have c: "c \<notin> set (spheres ?s)" if "player ?s = Some p" "intersectsMesh E c p"
    using that by (simp add: runRenderLoop_spheres)
  have d: "c \<notin> set (spheres (frames E ins ?s))" if "player ?s = Some p" "intersectsMesh E c p"
    using c [OF that] frames_spheres_subset [of E ins ?s] by auto
  have e: "c' \<notin> set (spheres (frames E ins st))" if "c' \<notin> set (spheres st)"
    using that frames_spheres_subset [of E ins st] by auto
  have f: "updateGame E st =
      (map Dispose (filter (\<lambda>c. intersectsMesh E c q) (spheres st)),
       st\<lparr>spheres := filter (\<lambda>c. \<not> intersectsMesh E c q) (spheres st)\<rparr>)"
    if "player st = Some q"
    using that by (simp add: updateGame_def sweep_filter)
  from a b c d e f show ?thesis by blast
qed

theorem pickups_only_shrink_witness:
  "player (snd (runRenderLoop flatWorld noKeys 16
       (loaded (boxAt 0 0 0) [boxAt 0.5 0.25 0.5, boxAt 3 0.25 3]))) = Some (boxAt 0 0 0) \<and>
   intersectsMesh flatWorld (boxAt 0.5 0.25 0.5) (boxAt 0 0 0) \<and>
   boxAt 0.5 0.25 0.5 \<in> set (spheres (loaded (boxAt 0 0 0) [boxAt 0.5 0.25 0.5, boxAt 3 0.25 3])) \<and>
   boxAt 0.5 0.25 0.5 \<notin> set (spheres (snd (runRenderLoop flatWorld noKeys 16
       (loaded (boxAt 0 0 0) [boxAt 0.5 0.25 0.5, boxAt 3 0.25 3])))) \<and>
   boxAt 0.5 0.25 0.5 \<notin> set (spheres (frames flatWorld [(noKeys\<lparr>key_w := True\<rparr>, 16)]
       (snd (runRenderLoop flatWorld noKeys 16
          (loaded (boxAt 0 0 0) [boxAt 0.5 0.25 0.5, boxAt 3 0.25 3]))))) \<and>
   boxAt 9 0.25 9 \<notin> set (spheres (loaded (boxAt 0 0 0) [boxAt 0.5 0.25 0.5, boxAt 3 0.25 3])) \<and>
   boxAt 9 0.25 9 \<notin> set (spheres (frames flatWorld [(noKeys\<lparr>key_w := True\<rparr>, 16)]
       (loaded (boxAt 0 0 0) [boxAt 0.5 0.25 0.5, boxAt 3 0.25 3]))) \<and>
   player (loaded (boxAt 0 0 0) [boxAt 0.5 0.25 0.5, boxAt 3 0.25 3]) = Some (boxAt 0 0 0) \<and>
   updateGame flatWorld (loaded (boxAt 0 0 0) [boxAt 0.5 0.25 0.5, boxAt 3 0.25 3]) =
     ([Dispose (boxAt 0.5 0.25 0.5)], loaded (boxAt 0 0 0) [boxAt 3 0.25 3])"
  using pickups_only_shrink [where E = flatWorld and ks = noKeys and ms = 16
      and st = "loaded (boxAt 0 0 0) [boxAt 0.5 0.25 0.5, boxAt 3 0.25 3]"
      and p = "boxAt 0 0 0" and c = "boxAt 0.5 0.25 0.5" and c' = "boxAt 9 0.25 9"
      and q = "boxAt 0 0 0" and ins = "[(noKeys\<lparr>key_w := True\<rparr>, 16)]"]
  by (simp add: loop_defs callback_defs world_defs vector_defs Let_def)

subsection \<open>The camera\<close>

text \<open>
  Claim C9: with a player present, \<open>updateCamera\<close> puts the camera at the player's
  position minus ten times its forward direction, with the height replaced by \<open>5\<close>,
  and aims it at the player's position; for a player at the origin facing \<open>+Z\<close> the
  camera is at \<open>(0, 5, -10)\<close> and looks at \<open>(0, 0, 0)\<close>.
\<close>

theorem camera_follows_player:
  "player st = Some p \<Longrightarrow>
     camera (updateCamera E st) =
       \<lparr>cam_position = Vector3 (vx (position E p) - vx (forward E p) * 10) 5
                         (vz (position E p) - vz (forward E p) * 10),
        cam_target = Some (position E p)\<rparr> \<and>
     (position E p = Vector3 0 0 0 \<and> forward E p = Vector3 0 0 1 \<longrightarrow>
        camera (updateCamera E st) =
          \<lparr>cam_position = Vector3 0 5 (-10), cam_target = Some (Vector3 0 0 0)\<rparr>)"
  by (simp add: updateCamera_def Let_def vector_defs followDistance_def cameraHeight_def)

theorem camera_follows_player_witness:
  "player (loaded (boxAt 0 0 0) []) = Some (boxAt 0 0 0) \<and>
   position flatWorld (boxAt 0 0 0) = Vector3 0 0 0 \<and>
   forward flatWorld (boxAt 0 0 0) = Vector3 0 0 1 \<and>
   camera (updateCamera flatWorld (loaded (boxAt 0 0 0) [])) =
     \<lparr>cam_position = Vector3 0 5 (-10), cam_target = Some (Vector3 0 0 0)\<rparr>"
  using camera_follows_player [where st = "loaded (boxAt 0 0 0) []" and p = "boxAt 0 0 0"
      and E = flatWorld]
  by (simp add: world_defs vector_defs)

subsection \<open>Landing while moving up\<close>

text \<open>
  Claim C10: the landing test of \<open>applyGravityAndJump\<close> does not look at the sign of
  the vertical velocity: whenever the height after its move is at most \<open>0.1\<close>, the
  player is grounded and the vertical velocity is \<open>0\<close>. So a frame in which a grounded
  player jumps, and whose move (made with the jump force less one step of gravity)
  leaves the player at height at most \<open>0.1\<close>, ends grounded with vertical velocity
  \<open>0\<close>: the jump is cancelled. From the ground, a frame of 16 ms is such a frame.
\<close>

theorem threshold_lands_any_direction:
  "(player st = Some p \<and>
      vy (position E (moveWithCollisions E p
            (scale (applyGravity st (ms / 1000)) (ms / 1000)))) \<le> 0.1 \<longrightarrow>
        isGrounded (applyGravityAndJump E ms st) \<and>
        vy (velocity (applyGravityAndJump E ms st)) = 0) \<and>
   (player st' = Some p' \<and> \<not> key_b ks \<and> key_space ks \<and> isGrounded st' \<and>
      player (snd (runRenderLoop E ks ms' st')) = Some q \<and> vy (position E q) \<le> 0.1 \<longrightarrow>
        ConsoleLog ''Jumping'' \<in> set (fst (runRenderLoop E ks ms' st')) \<and>
        applyGravity (snd (render E ks st')) (ms' / 1000) =
          add ((velocity st')\<lparr>vy := jumpForce st'\<rparr>) (scale (gravity st') (ms' / 1000)) \<and>
        isGrounded (snd (runRenderLoop E ks ms' st')) \<and>
        vy (velocity (snd (runRenderLoop E ks ms' st'))) = 0)"
proof -
  have a: "isGrounded (applyGravityAndJump E ms st) \<and>
        vy (velocity (applyGravityAndJump E ms st)) = 0"
    if "player st = Some p"
      "vy (position E (moveWithCollisions E p
            (scale (applyGravity st (ms / 1000)) (ms / 1000)))) \<le> 0.1"
    using that by (simp add: applyGravityAndJump_def Let_def)
  have b: "ConsoleLog ''Jumping'' \<in> set (fst (runRenderLoop E ks ms' st')) \<and>
        applyGravity (snd (render E ks st')) (ms' / 1000) =
          add ((velocity st')\<lparr>vy := jumpForce st'\<rparr>) (scale (gravity st') (ms' / 1000)) \<and>
        isGrounded (snd (runRenderLoop E ks ms' st')) \<and>
        vy (velocity (snd (runRenderLoop E ks ms' st'))) = 0"
    if j: "player st' = Some p'" "\<not> key_b ks" "key_space ks" "isGrounded st'"
      and q: "player (snd (runRenderLoop E ks ms' st')) = Some q" "vy (position E q) \<le> 0.1"
  proof -
    from render_jump [OF j, of E] have
      "ConsoleLog ''Jumping'' \<in> set (fst (runRenderLoop E ks ms' st'))"
      "applyGravity (snd (render E ks st')) (ms' / 1000) =
          add ((velocity st')\<lparr>vy := jumpForce st'\<rparr>) (scale (gravity st') (ms' / 1000))"
      by (simp_all add: runRenderLoop_effects applyGravity_def render_fields)
    moreover from q applyGravityAndJump_landed [of E ms' "snd (render E ks st')" q]
    have "isGrounded (snd (runRenderLoop E ks ms' st')) \<and>
        vy (velocity (snd (runRenderLoop E ks ms' st'))) = 0"
      by (simp add: runRenderLoop_motion)
    ultimately show ?thesis by simp
  qed
  from a b show ?thesis by blast
qed

theorem threshold_lands_any_direction_witness:
  "player ((loaded (boxAt 0 0 0) [])\<lparr>isGrounded := False, velocity := Vector3 0 4 0\<rparr>)
     = Some (boxAt 0 0 0) \<and>
   0 < vy (applyGravity
         ((loaded (boxAt 0 0 0) [])\<lparr>isGrounded := False, velocity := Vector3 0 4 0\<rparr>)
         (16 / 1000)) \<and>
   vy (position flatWorld (moveWithCollisions flatWorld (boxAt 0 0 0)
         (scale (applyGravity
            ((loaded (boxAt 0 0 0) [])\<lparr>isGrounded := False, velocity := Vector3 0 4 0\<rparr>)
            (16 / 1000)) (16 / 1000)))) \<le> 0.1 \<and>
   isGrounded (applyGravityAndJump flatWorld 16
      ((loaded (boxAt 0 0 0) [])\<lparr>isGrounded := False, velocity := Vector3 0 4 0\<rparr>)) \<and>
   vy (velocity (applyGravityAndJump flatWorld 16
      ((loaded (boxAt 0 0 0) [])\<lparr>isGrounded := False, velocity := Vector3 0 4 0\<rparr>))) = 0 \<and>
   player (loaded (boxAt 0 0 0) []) = Some (boxAt 0 0 0) \<and>
   \<not> key_b (noKeys\<lparr>key_space := True\<rparr>) \<and> key_space (noKeys\<lparr>key_space := True\<rparr>) \<and>
   isGrounded (loaded (boxAt 0 0 0) []) \<and>
   player (snd (runRenderLoop flatWorld (noKeys\<lparr>key_space := True\<rparr>) 16
       (loaded (boxAt 0 0 0) []))) = Some (boxAt 0 ((4 - 9.81 * 0.016) * 0.016) 0) \<and>
   0 < vy (position flatWorld (boxAt 0 ((4 - 9.81 * 0.016) * 0.016) 0)) \<and>
   vy (position flatWorld (boxAt 0 ((4 - 9.81 * 0.016) * 0.016) 0)) \<le> 0.1 \<and>
   ConsoleLog ''Jumping'' \<in> set (fst (runRenderLoop flatWorld (noKeys\<lparr>key_space := True\<rparr>) 16
       (loaded (boxAt 0 0 0) []))) \<and>
   isGrounded (snd (runRenderLoop flatWorld (noKeys\<lparr>key_space := True\<rparr>) 16
       (loaded (boxAt 0 0 0) []))) \<and>
   vy (velocity (snd (runRenderLoop flatWorld (noKeys\<lparr>key_space := True\<rparr>) 16
       (loaded (boxAt 0 0 0) [])))) = 0"
  using threshold_lands_any_direction [where E = flatWorld and ms = 16 and p = "boxAt 0 0 0"
      and st = "(loaded (boxAt 0 0 0) [])\<lparr>isGrounded := False, velocity := Vector3 0 4 0\<rparr>"
      and st' = "loaded (boxAt 0 0 0) []" and p' = "boxAt 0 0 0"
      and ks = "noKeys\<lparr>key_space := True\<rparr>" and ms' = 16
      and q = "boxAt 0 ((4 - 9.81 * 0.016) * 0.016) 0"]
  by (simp add: loop_defs callback_defs world_defs vector_defs)

end
